theory Spec2Isabelle
  imports Main "HOL-Library.Sublist" "HOL-Library.Char_ord" "HOL-Library.List_Lexorder"
    "HOL-Library.Product_Lexorder"
begin

section \<open>The Oracle client of the database abstraction layer\<close>

text \<open>
  A shallow embedding of \<^verbatim>\<open>apps/studio/src/lib/db/clients/oracle.ts\<close> (class
  \<^verbatim>\<open>OracleClient\<close>). A JavaScript string is a \<^typ>\<open>string\<close>; one \<^typ>\<open>char\<close> stands for
  one code unit below 256. A value that may be \<^verbatim>\<open>undefined\<close> or \<^verbatim>\<open>null\<close> is an
  \<^typ>\<open>'a option\<close>, a thrown exception is the left summand of a sum type.
\<close>

subsection \<open>Built-ins of the language\<close>

text \<open>
  \<^verbatim>\<open>String.prototype.trimEnd\<close> removes white space and line terminators from the end of
  a string: TAB, LF, VT, FF, CR, SPACE and, in the range of \<^typ>\<open>char\<close>, NBSP.
\<close>

definition isWhiteSpace :: "char \<Rightarrow> bool" where
  "isWhiteSpace c \<longleftrightarrow>
     c \<in> {CHR 0x09, CHR 0x0A, CHR 0x0B, CHR 0x0C, CHR 0x0D, CHR 0x20, CHR 0xA0}"

definition trimEnd :: "string \<Rightarrow> string" where
  "trimEnd s = rev (dropWhile isWhiteSpace (rev s))"

definition endsWith :: "string \<Rightarrow> string \<Rightarrow> bool" where
  "endsWith s t \<longleftrightarrow> suffix t s"

text \<open>
  \<^verbatim>\<open>slice(start, end)\<close> of strings and arrays: a negative index counts from the end,
  both indices are clamped to the length, and an empty range gives the empty result.
\<close>

definition js_slice :: "'a list \<Rightarrow> int \<Rightarrow> int \<Rightarrow> 'a list" where
  "js_slice xs start stop =
     (let len = int (length xs);
          k = (if start < 0 then max (len + start) 0 else min start len);
          fin = (if stop < 0 then max (len + stop) 0 else min stop len)
      in take (nat (fin - k)) (drop (nat k) xs))"

text \<open>
  \<^verbatim>\<open>Array.prototype.join\<close> on an array of strings, \<^verbatim>\<open>String.prototype.includes\<close>,
  and \<^verbatim>\<open>String.prototype.toUpperCase\<close>, which is modelled on the letters a to z (every
  other \<^typ>\<open>char\<close> is left as it is, as JavaScript does on ASCII text).
\<close>

fun join :: "string \<Rightarrow> string list \<Rightarrow> string" where
  "join sep [] = []"
| "join sep [x] = x"
| "join sep (x # y # ys) = x @ sep @ join sep (y # ys)"

fun js_includes :: "string \<Rightarrow> string \<Rightarrow> bool" where
  "js_includes [] t = (t = [])"
| "js_includes (c # cs) t = (prefix t (c # cs) \<or> js_includes cs t)"

definition toUpperChar :: "char \<Rightarrow> char" where
  "toUpperChar c =
     (case map_of (zip ''abcdefghijklmnopqrstuvwxyz'' ''ABCDEFGHIJKLMNOPQRSTUVWXYZ'') c of
        Some u \<Rightarrow> u
      | None \<Rightarrow> c)"

definition toUpperCase :: "string \<Rightarrow> string" where
  "toUpperCase s = map toUpperChar s"

text \<open>
  The decimal text of a number inside a template literal. Indices, offsets and limits
  are whole numbers.
\<close>

definition digit :: "nat \<Rightarrow> char" where
  "digit d = ''0123456789'' ! d"

fun showNat :: "nat \<Rightarrow> string" where
  "showNat n = (if n < 10 then [digit n] else showNat (n div 10) @ [digit (n mod 10)])"

declare showNat.simps [simp del]

definition showInt :: "int \<Rightarrow> string" where
  "showInt i = (if i < 0 then ''-'' @ showNat (nat (- i)) else showNat (nat i))"

text \<open>
  A thrown value: an \<^verbatim>\<open>Error\<close> object with its message and its other own properties.
\<close>

record js_error =
  message :: "string option"
  props :: "(string \<times> string) list"

definition TypeError :: "string \<Rightarrow> js_error" where
  "TypeError msg = \<lparr>message = Some msg, props = [(''name'', ''TypeError'')]\<rparr>"

subsection \<open>Statement classification and the trailing separator\<close>

text \<open>
  The classifier (\<^verbatim>\<open>sql-query-identifier\<close>) gives every statement its text and an
  execution type; the client reads those two members of \<^verbatim>\<open>IdentifyResult\<close>. The member
  \<^verbatim>\<open>text\<close> is \<open>stmt_text\<close> here.
\<close>

datatype ExecutionType = LISTING | MODIFICATION | INFORMATION | ANON_BLOCK | UNKNOWN

record IdentifyResult =
  stmt_text :: string
  executionType :: ExecutionType

definition maybeStripSemicolon :: "string \<Rightarrow> IdentifyResult \<Rightarrow> string" where
  "maybeStripSemicolon query i =
     (if executionType i \<noteq> ANON_BLOCK
      then (if endsWith (trimEnd query) '';'' then js_slice (trimEnd query) 0 (- 1) else query)
      else query)"

subsection \<open>The SQL builder\<close>

text \<open>
  The dialect helpers \<^verbatim>\<open>OracleData\<close> (\<^verbatim>\<open>@shared/lib/dialects/oracle\<close>) and
  \<^verbatim>\<open>joinFilters\<close> (\<^verbatim>\<open>@/common/utils\<close>) are imported by the client; they are
  parameters of the builder here. A filter's value is one value or, for \<^verbatim>\<open>in\<close>, an
  array of values.
\<close>

datatype 'v FilterValue = Single 'v | Multiple "'v list"

record 'v TableFilter =
  field :: string
  filter_type :: string
  filter_value :: "'v FilterValue"

record 'v Dialect =
  wrapIdentifier :: "string \<Rightarrow> string"
  escapeString :: "'v FilterValue \<Rightarrow> bool \<Rightarrow> string"
  wrapLiteral :: "string \<Rightarrow> string"
  joinFilters :: "string list \<Rightarrow> 'v TableFilter list \<Rightarrow> string"

text \<open>An ordering entry is a bare field name or an object with a field and a direction.\<close>

datatype OrderBy = Bare string | FieldDir string string

definition genOrderByString :: "'v Dialect \<Rightarrow> OrderBy list option \<Rightarrow> string" where
  "genOrderByString D orderBy =
     (case orderBy of
        None \<Rightarrow> []
      | Some obs \<Rightarrow>
          (if length obs > 0
           then ''ORDER BY '' @
             join '','' (map (\<lambda>item. case item of
                   FieldDir f dir \<Rightarrow> wrapIdentifier D f @ '' '' @ toUpperCase dir
                 | Bare f \<Rightarrow> wrapIdentifier D f) obs)
           else []))"

text \<open>
  One entry of the filter list. \<^verbatim>\<open>item.value.map\<close> throws a \<^verbatim>\<open>TypeError\<close> when the
  value of an \<^verbatim>\<open>in\<close> filter is not an array.
\<close>

definition genFilter :: "'v Dialect \<Rightarrow> 'v TableFilter \<Rightarrow> js_error + string" where
  "genFilter D item =
     (if filter_type item = ''in''
      then (case filter_value item of
              Multiple vs \<Rightarrow>
                (let valuesIn = map (\<lambda>v. escapeString D (Single v) True) vs
                 in Inr (wrapIdentifier D (field item) @ '' IN ('' @ join '','' valuesIn @ '')''))
            | Single v \<Rightarrow> Inl (TypeError ''item.value.map is not a function''))
      else if js_includes (filter_type item) ''is''
      then Inr (wrapIdentifier D (field item) @ '' '' @ toUpperCase (filter_type item) @ '' NULL'')
      else Inr (wrapIdentifier D (field item) @ '' '' @ filter_type item @ '' '' @
                escapeString D (filter_value item) True))"

text \<open>\<^verbatim>\<open>filters.map\<close>: the fragments in order, or the first exception thrown.\<close>

fun mapThrow :: "('x \<Rightarrow> js_error + 'y) \<Rightarrow> 'x list \<Rightarrow> js_error + 'y list" where
  "mapThrow g [] = Inr []"
| "mapThrow g (item # items) =
     (case g item of
        Inl e \<Rightarrow> Inl e
      | Inr y \<Rightarrow> (case mapThrow g items of Inl e \<Rightarrow> Inl e | Inr ys \<Rightarrow> Inr (y # ys)))"

definition genFilters :: "'v Dialect \<Rightarrow> 'v TableFilter list option \<Rightarrow> js_error + string" where
  "genFilters D filters =
     (case filters of
        None \<Rightarrow> Inr []
      | Some fs \<Rightarrow>
          (if length fs > 0
           then (case mapThrow (genFilter D) fs of
                   Inl e \<Rightarrow> Inl e
                 | Inr allFilters \<Rightarrow> Inr (''WHERE '' @ joinFilters D allFilters fs))
           else Inr []))"

text \<open>
  The \<^verbatim>\<open>filters\<close> argument of \<^verbatim>\<open>genSelect\<close>: absent, a raw string, or a filter list.
  The line breaks and indentation of the template literals are kept.
\<close>

datatype 'v Filters = NoFilters | RawFilter string | FilterList "'v TableFilter list"

definition nl :: "nat \<Rightarrow> string" where
  "nl n = CHR 0x0A # replicate n CHR '' ''"

definition offsetString :: "int option \<Rightarrow> int option \<Rightarrow> string" where
  "offsetString offset limit =
     (case (offset, limit) of
        (Some off, Some lim) \<Rightarrow>
          ''OFFSET '' @ showInt off @ '' ROWS FETCH NEXT '' @ showInt lim @ '' ROWS ONLY''
      | _ \<Rightarrow> [])"

definition genSelect ::
  "'v Dialect \<Rightarrow> string \<Rightarrow> int option \<Rightarrow> int option \<Rightarrow> OrderBy list option \<Rightarrow> 'v Filters \<Rightarrow>
   string option \<Rightarrow> bool \<Rightarrow> string list option \<Rightarrow> js_error + string" where
  "genSelect D table offset limit orderBy filters schema count selects =
     (case (case filters of
              RawFilter s \<Rightarrow> Inr (''WHERE '' @ wrapLiteral D s)
            | NoFilters \<Rightarrow> genFilters D None
            | FilterList fs \<Rightarrow> genFilters D (Some fs)) of
        Inl e \<Rightarrow> Inl e
      | Inr filterString \<Rightarrow>
          (let orderByString = genOrderByString D orderBy;
               schemaString = (case schema of
                                 None \<Rightarrow> []
                               | Some s \<Rightarrow> if s = [] then [] else wrapIdentifier D s @ ''.'');
               baseSQL = nl 6 @ ''FROM '' @ schemaString @ wrapIdentifier D table @
                         nl 6 @ filterString @ nl 4;
               selectFormatted =
                 map (\<lambda>s. if s = ''*'' then ''*'' else wrapIdentifier D s)
                   (case selects of None \<Rightarrow> [''*''] | Some ss \<Rightarrow> ss)
           in Inr (nl 6 @ ''SELECT '' @
                   (if count then ''COUNT(1) as TOTAL'' else join '', '' selectFormatted) @
                   '' '' @ baseSQL @
                   nl 6 @ orderByString @
                   nl 6 @ offsetString offset limit @ nl 4)))"

definition selectTopSql ::
  "'v Dialect \<Rightarrow> string \<Rightarrow> int option \<Rightarrow> int option \<Rightarrow> OrderBy list option \<Rightarrow> 'v Filters \<Rightarrow>
   string option \<Rightarrow> string list option \<Rightarrow> js_error + string" where
  "selectTopSql D table offset limit orderBy filters schema selects =
     genSelect D table offset limit orderBy filters schema False selects"

text \<open>
  A dialect to evaluate the builder with: identifiers in double quotes, literals in
  single quotes, the raw fragment as it is, the filters joined by \<^verbatim>\<open>AND\<close>.
\<close>

definition exampleDialect :: "string Dialect" where
  "exampleDialect =
     \<lparr>wrapIdentifier = (\<lambda>s. [CHR 0x22] @ s @ [CHR 0x22]),
      escapeString = (\<lambda>v quote. case v of
                         Single s \<Rightarrow> (if quote then [CHR 0x27] @ s @ [CHR 0x27] else s)
                       | Multiple ss \<Rightarrow> join '','' ss),
      wrapLiteral = (\<lambda>s. s),
      joinFilters = (\<lambda>frags ops. join '' AND '' frags)\<rparr>"

subsection \<open>Objects\<close>

text \<open>
  A plain object is the list of its own properties in creation order. Assigning to a
  key that exists replaces its value in place; assigning to a new key appends it.
\<close>

type_synonym 'v obj = "(string \<times> 'v) list"

fun assign :: "'v obj \<Rightarrow> string \<Rightarrow> 'v \<Rightarrow> 'v obj" where
  "assign [] k v = [(k, v)]"
| "assign ((k', v') # kvs) k v =
     (if k' = k then (k', v) # kvs else (k', v') # assign kvs k v)"

text \<open>
  \<^verbatim>\<open>Object.keys\<close> lists the keys that are array indices (the canonical decimal text of
  a number below \<open>2\<^sup>3\<^sup>2 - 1\<close>) in ascending order, then the other keys in creation order.
\<close>

definition isDigit :: "char \<Rightarrow> bool" where
  "isDigit c \<longleftrightarrow> c \<in> set ''0123456789''"

definition digitVal :: "char \<Rightarrow> nat" where
  "digitVal c = (case map_of (zip ''0123456789'' [0 ..< 10]) c of Some d \<Rightarrow> d | None \<Rightarrow> 0)"

definition parseNat :: "string \<Rightarrow> nat" where
  "parseNat s = foldl (\<lambda>n c. 10 * n + digitVal c) 0 s"

definition isArrayIndex :: "string \<Rightarrow> bool" where
  "isArrayIndex s \<longleftrightarrow>
     s \<noteq> [] \<and> list_all isDigit s \<and> (s = ''0'' \<or> hd s \<noteq> CHR ''0'') \<and>
     parseNat s < 4294967295"

definition objectKeys :: "'v obj \<Rightarrow> string list" where
  "objectKeys obj =
     sort_key parseNat (filter isArrayIndex (map fst obj)) @
     filter (\<lambda>k. \<not> isArrayIndex k) (map fst obj)"

text \<open>
  \<^verbatim>\<open>_.zipObject(props, values)\<close> assigns to every property, in order, the value at its
  position, or \<^verbatim>\<open>undefined\<close> where the values have run out.
\<close>

fun baseZipObject :: "'v option obj \<Rightarrow> string list \<Rightarrow> 'v list \<Rightarrow> 'v option obj" where
  "baseZipObject res [] vs = res"
| "baseZipObject res (p # ps) [] = baseZipObject (assign res p None) ps []"
| "baseZipObject res (p # ps) (v # vs) = baseZipObject (assign res p (Some v)) ps vs"

definition zipObject :: "string list \<Rightarrow> 'v list \<Rightarrow> 'v option obj" where
  "zipObject ps vs = baseZipObject [] ps vs"

subsection \<open>Results of the driver and their normal form\<close>

text \<open>
  What the client reads of the driver's result (\<^verbatim>\<open>oracle.Result\<close>): the optional column
  metadata, the optional rows (arrays of cells) and the optional count of affected rows.
  A \<^verbatim>\<open>DriverResult\<close> pairs it with the classified statement. In the normal form the
  members \<^verbatim>\<open>name\<close> and \<^verbatim>\<open>id\<close> of a field descriptor are \<open>field_name\<close> and
  \<open>field_id\<close>, the members \<^verbatim>\<open>rows\<close> and \<^verbatim>\<open>fields\<close> of a query result are \<open>ng_rows\<close>
  and \<open>ng_fields\<close>, and the members \<^verbatim>\<open>result\<close> and \<^verbatim>\<open>fields\<close> of a table result are
  \<open>tr_result\<close> and \<open>tr_fields\<close>.
\<close>

record Metadata =
  name :: string
  dbTypeName :: string

record 'v Result =
  metaData :: "Metadata list option"
  rows :: "'v list list option"
  rowsAffected :: "nat option"

record 'v DriverResult =
  result :: "'v Result"
  info :: IdentifyResult

record FieldDescriptor =
  field_name :: string
  field_id :: string
  dataType :: string

record 'v NgQueryResult =
  command :: string
  rowCount :: nat
  affectedRows :: nat
  ng_rows :: "'v option obj list"
  ng_fields :: "FieldDescriptor list"

definition metaToFields :: "Metadata list option \<Rightarrow> FieldDescriptor list" where
  "metaToFields md =
     (case md of
        None \<Rightarrow> []
      | Some ms \<Rightarrow>
          map (\<lambda>(idx, meta).
                 \<lparr>field_name = name meta, field_id = ''c'' @ showNat idx,
                  dataType = dbTypeName meta\<rparr>)
              (enumerate 0 ms))"

definition parseResult :: "'v DriverResult \<Rightarrow> 'v NgQueryResult" where
  "parseResult r =
     (let fs = metaToFields (metaData (result r));
          fieldIds = map field_id fs
      in \<lparr>command = stmt_text (info r),
          rowCount = (case rows (result r) of None \<Rightarrow> 0 | Some rs \<Rightarrow> length rs),
          affectedRows = (case rowsAffected (result r) of None \<Rightarrow> 0 | Some n \<Rightarrow> n),
          ng_rows = (case rows (result r) of
                       None \<Rightarrow> []
                     | Some rs \<Rightarrow> map (\<lambda>row. zipObject fieldIds row) rs),
          ng_fields = metaToFields (metaData (result r))\<rparr>)"

definition parseResults :: "'v DriverResult list \<Rightarrow> 'v NgQueryResult list" where
  "parseResults results = map parseResult results"

text \<open>
  \<^verbatim>\<open>driverExecuteSimple\<close> runs one statement and turns every row into an object keyed by
  the column names. \<^verbatim>\<open>driverExecuteSingle\<close> belongs to the base class of the client and
  is a parameter, and so is the form of the query it takes: the text of a statement, or
  a query of the query builder, whose text the builder renders. Reading \<^verbatim>\<open>rows\<close> or a
  column's metadata where there is none throws a \<^verbatim>\<open>TypeError\<close>.
\<close>

fun fillRow :: "Metadata list option \<Rightarrow> nat \<Rightarrow> 'v list \<Rightarrow> 'v obj \<Rightarrow> js_error + 'v obj" where
  "fillRow md idx [] nuRow = Inr nuRow"
| "fillRow md idx (item # items) nuRow =
     (case md of
        None \<Rightarrow> Inl (TypeError ''Cannot read properties of undefined'')
      | Some ms \<Rightarrow>
          (if idx < length ms
           then fillRow md (Suc idx) items (assign nuRow (name (ms ! idx)) item)
           else Inl (TypeError ''Cannot read properties of undefined'')))"

definition driverExecuteSimple ::
  "('q \<Rightarrow> js_error + 'v DriverResult) \<Rightarrow> 'q \<Rightarrow> js_error + 'v obj list" where
  "driverExecuteSimple driverExecuteSingle query =
     (case driverExecuteSingle query of
        Inl e \<Rightarrow> Inl e
      | Inr dr \<Rightarrow>
          (case rows (result dr) of
             None \<Rightarrow> Inl (TypeError ''Cannot read properties of undefined'')
           | Some rs \<Rightarrow> mapThrow (\<lambda>r. fillRow (metaData (result dr)) 0 r []) rs))"

record 'v TableResult =
  tr_result :: "'v obj list"
  tr_fields :: "string list"

text \<open>
  \<^verbatim>\<open>selectTop\<close>; the schema defaults to the upper-cased user name of the connection.
\<close>

definition selectTop ::
  "'w Dialect \<Rightarrow> (string \<Rightarrow> js_error + 'v DriverResult) \<Rightarrow> string \<Rightarrow>
   string \<Rightarrow> int option \<Rightarrow> int option \<Rightarrow> OrderBy list option \<Rightarrow> 'w Filters \<Rightarrow>
   string option \<Rightarrow> string list option \<Rightarrow> js_error + 'v TableResult" where
  "selectTop D driverExecuteSingle user table offset limit orderBy filters schema selects =
     (case genSelect D table offset limit orderBy filters
             (Some (case schema of None \<Rightarrow> toUpperCase user | Some s \<Rightarrow> s)) False
             (Some (case selects of None \<Rightarrow> [''*''] | Some ss \<Rightarrow> ss)) of
        Inl e \<Rightarrow> Inl e
      | Inr query \<Rightarrow>
          (case driverExecuteSimple driverExecuteSingle query of
             Inl e \<Rightarrow> Inl e
           | Inr res \<Rightarrow>
               Inr \<lparr>tr_result = res,
                    tr_fields = objectKeys (case res of [] \<Rightarrow> [] | r # _ \<Rightarrow> r)\<rparr>))"

subsection \<open>Executing statements on a session\<close>

text \<open>
  A session of the pool executes one statement on the state of the database and
  returns the driver's result with the new state, or throws; committing makes the state
  permanent. \<^verbatim>\<open>rawExecuteQuery\<close> classifies the text (one string or an array of
  strings), runs the statements in order on one session and commits at the end. The
  classifier and the session are parameters. An exception leaves the loop, and the
  session is closed without a commit.
\<close>

record ('db, 'v) Session =
  session_execute :: "string \<Rightarrow> 'db \<Rightarrow> js_error + ('v Result \<times> 'db)"
  session_commit :: "'db \<Rightarrow> js_error + 'db"

datatype QueryText = One string | Many "string list"

fun executeAll ::
  "('db, 'v) Session \<Rightarrow> IdentifyResult list \<Rightarrow> 'v DriverResult list \<Rightarrow> 'db \<Rightarrow>
   js_error + ('v DriverResult list \<times> 'db)" where
  "executeAll c [] results db = Inr (results, db)"
| "executeAll c (q # infos) results db =
     (let queryText = maybeStripSemicolon (stmt_text q) q
      in case session_execute c queryText db of
           Inl e \<Rightarrow> Inl e
         | Inr (data, db') \<Rightarrow> executeAll c infos (results @ [\<lparr>result = data, info = q\<rparr>]) db')"

definition rawExecuteQuery ::
  "(string \<Rightarrow> IdentifyResult list) \<Rightarrow> (js_error + ('db, 'v) Session) \<Rightarrow> QueryText \<Rightarrow> 'db \<Rightarrow>
   js_error + ('v DriverResult list \<times> 'db)" where
  "rawExecuteQuery identify getConnection query db =
     (let realQueries = (case query of Many qs \<Rightarrow> qs | One q \<Rightarrow> [q]);
          infos = concat (map identify realQueries)
      in case getConnection of
           Inl e \<Rightarrow> Inl e
         | Inr c \<Rightarrow>
             (case executeAll c infos [] db of
                Inl e \<Rightarrow> Inl e
              | Inr (results, db') \<Rightarrow>
                  (case session_commit c db' of
                     Inl e \<Rightarrow> Inl e
                   | Inr db'' \<Rightarrow> Inr (results, db''))))"

subsection \<open>Cancelable queries\<close>

text \<open>
  The body of \<^verbatim>\<open>query(text).execute\<close> after its awaits. What the environment decides
  is given: whether a session was obtained, how the awaited race was settled (an
  exception, or the data, which may be \<^verbatim>\<open>undefined\<close>), and the value of the flag
  \<^verbatim>\<open>canceling\<close> when the exception is caught. The call resolves to the parsed results
  or to \<^verbatim>\<open>undefined\<close> (\<^const>\<open>None\<close>), or rejects.
\<close>

definition translateError :: "js_error \<Rightarrow> js_error" where
  "translateError err =
     (case message err of
        None \<Rightarrow> err
      | Some m \<Rightarrow>
          (if js_includes m ''table or view does not exist''
           then err\<lparr>message := Some (m @ '' - have you tried '' @ [CHR 0x22] @ ''quoting'' @
                                          [CHR 0x22] @ '' the table name?'')\<rparr>
           else err))"

definition execute ::
  "js_error + 'c \<Rightarrow> js_error + 'v DriverResult list option \<Rightarrow> bool \<Rightarrow>
   js_error + 'v NgQueryResult list option" where
  "execute getConnection raced canceling =
     (case getConnection of
        Inl e \<Rightarrow> Inl e
      | Inr connection \<Rightarrow>
          (case raced of
             Inr data \<Rightarrow>
               (case data of
                  None \<Rightarrow> Inr (Some [])
                | Some d \<Rightarrow> Inr (Some (parseResults d)))
           | Inl err \<Rightarrow>
               (if canceling then Inr None else Inl (translateError err))))"

subsection \<open>Applying a change set\<close>

text \<open>
  The statement builders (\<^verbatim>\<open>./utils\<close>) and \<^verbatim>\<open>driverExecuteMultiple\<close> (the base class)
  are parameters; a builder may throw. The updates of a change set may be absent.
\<close>

record ('i, 'u, 'd) TableChanges =
  inserts :: "'i list option"
  updates :: "'u list option"
  deletes :: "'d list option"

record ('i, 'u, 'd) Builders =
  buildInsertQueries :: "'i list option \<Rightarrow> js_error + string list"
  buildUpdateQueries :: "'u list option \<Rightarrow> js_error + string list"
  buildDeleteQueries :: "'d list option \<Rightarrow> js_error + string list"
  buildSelectQueriesFromUpdates :: "'u list \<Rightarrow> js_error + string list"

definition applyChanges ::
  "('i, 'u, 'd) Builders \<Rightarrow> (string \<Rightarrow> js_error + 'r list) \<Rightarrow> ('i, 'u, 'd) TableChanges \<Rightarrow>
   js_error + 'r list" where
  "applyChanges B driverExecuteMultiple changes =
     (case buildInsertQueries B (inserts changes) of
        Inl e \<Rightarrow> Inl e
      | Inr insertQueries \<Rightarrow>
     (case buildUpdateQueries B (updates changes) of
        Inl e \<Rightarrow> Inl e
      | Inr updateQueries \<Rightarrow>
     (case buildDeleteQueries B (deletes changes) of
        Inl e \<Rightarrow> Inl e
      | Inr deleteQueries \<Rightarrow>
     (case (case updates changes of
              None \<Rightarrow> Inr []
            | Some us \<Rightarrow> buildSelectQueriesFromUpdates B us) of
        Inl e \<Rightarrow> Inl e
      | Inr selectQueries \<Rightarrow>
     (case driverExecuteMultiple
             (join '';'' (insertQueries @ updateQueries @ deleteQueries @ selectQueries)) of
        Inl e \<Rightarrow> Inl e
      | Inr results \<Rightarrow>
          Inr (case updates changes of
                 Some us \<Rightarrow> js_slice results (int (length results) - int (length us)) (- 1)
               | None \<Rightarrow> []))))))"

text \<open>
  A change set is evaluated below with builders that render one statement per row (the
  row is given by the text of its key), a classifier that splits the text at the
  semicolons, and a session that answers every statement with one row holding the text
  of the statement, keeping a log of the statements as the state of the database.
\<close>

fun splitOn :: "char \<Rightarrow> string \<Rightarrow> string list" where
  "splitOn sep [] = [[]]"
| "splitOn sep (c # cs) =
     (if c = sep then [] # splitOn sep cs
      else (case splitOn sep cs of w # ws \<Rightarrow> (c # w) # ws | [] \<Rightarrow> [[c]]))"

definition orEmpty :: "'a list option \<Rightarrow> 'a list" where
  "orEmpty xs = (case xs of None \<Rightarrow> [] | Some l \<Rightarrow> l)"

definition exampleBuilders :: "(string, string, string) Builders" where
  "exampleBuilders =
     \<lparr>buildInsertQueries = (\<lambda>rs. Inr (map (\<lambda>k. ''INSERT INTO T (ID) VALUES ('' @ k @ '')'') (orEmpty rs))),
      buildUpdateQueries = (\<lambda>rs. Inr (map (\<lambda>k. ''UPDATE T SET X = 1 WHERE ID = '' @ k) (orEmpty rs))),
      buildDeleteQueries = (\<lambda>rs. Inr (map (\<lambda>k. ''DELETE FROM T WHERE ID = '' @ k) (orEmpty rs))),
      buildSelectQueriesFromUpdates = (\<lambda>rs. Inr (map (\<lambda>k. ''SELECT * FROM T WHERE ID = '' @ k) rs))\<rparr>"

definition exampleIdentify :: "string \<Rightarrow> IdentifyResult list" where
  "exampleIdentify sqlText =
     map (\<lambda>t. \<lparr>stmt_text = t,
               executionType = (if prefix ''SELECT'' t then LISTING else MODIFICATION)\<rparr>)
       (splitOn CHR '';'' sqlText)"

definition exampleSession :: "(string list, string) Session" where
  "exampleSession =
     \<lparr>session_execute = (\<lambda>stmt db.
        Inr (\<lparr>metaData = Some [\<lparr>name = ''STATEMENT'', dbTypeName = ''VARCHAR2''\<rparr>],
              rows = Some [[stmt]], rowsAffected = None\<rparr>, db @ [stmt])),
      session_commit = (\<lambda>db. Inr db)\<rparr>"

definition exampleExecuteMultiple :: "string \<Rightarrow> js_error + string DriverResult list" where
  "exampleExecuteMultiple sqlText =
     (case rawExecuteQuery exampleIdentify (Inr exampleSession) (One sqlText) [] of
        Inl e \<Rightarrow> Inl e
      | Inr (results, db) \<Rightarrow> Inr results)"

subsection \<open>Schema introspection\<close>

text \<open>
  \<^verbatim>\<open>listTables\<close> and \<^verbatim>\<open>listViews\<close> build their query with the query builder (knex):
  a catalog view and a chain of conditions, all of which a row must satisfy.
\<close>

datatype Clause =
    Where string string
  | WhereIn string "string list"
  | WhereNotIn string "string list"

record KnexQuery =
  from_view :: string
  wheres :: "Clause list"

definition knex :: "string \<Rightarrow> KnexQuery" where
  "knex view = \<lparr>from_view = view, wheres = []\<rparr>"

definition addWhere :: "Clause \<Rightarrow> KnexQuery \<Rightarrow> KnexQuery" where
  "addWhere cl q = q\<lparr>wheres := wheres q @ [cl]\<rparr>"

record FilterOptions =
  filter_schema :: "string option"
  only :: "string list option"
  ignore :: "string list option"

record TableOrView =
  tv_schema :: "string option"
  tv_name :: "string option"
  entityType :: string

text \<open>A property of a row object; \<^verbatim>\<open>undefined\<close> when the row has no such property.\<close>

definition getProp :: "'v obj \<Rightarrow> string \<Rightarrow> 'v option" where
  "getProp row k = map_of row k"

text \<open>
  In a condition an optional string counts when it is there and not empty; an array
  counts whenever it is there.
\<close>

definition listTablesQuery :: "FilterOptions option \<Rightarrow> KnexQuery" where
  "listTablesQuery flt =
     (let builder = knex ''ALL_TABLES'';
          builder = (case flt of
                       None \<Rightarrow> builder
                     | Some f \<Rightarrow>
                         (case filter_schema f of
                            None \<Rightarrow> builder
                          | Some s \<Rightarrow>
                              (if s \<noteq> [] then addWhere (Where ''OWNER'' (toUpperCase s)) builder
                               else builder)));
          builder = (case flt of
                       None \<Rightarrow> builder
                     | Some f \<Rightarrow>
                         (case only f of
                            None \<Rightarrow> builder
                          | Some names \<Rightarrow> addWhere (WhereIn ''TABLE_NAME'' names) builder));
          builder = (case flt of
                       None \<Rightarrow> builder
                     | Some f \<Rightarrow>
                         (case ignore f of
                            None \<Rightarrow> builder
                          | Some names \<Rightarrow> addWhere (WhereNotIn ''TABLE_NAME'' names) builder))
      in builder)"

definition listTables ::
  "(KnexQuery \<Rightarrow> js_error + string DriverResult) \<Rightarrow> FilterOptions option \<Rightarrow>
   js_error + TableOrView list" where
  "listTables driverExecuteSingle flt =
     (case driverExecuteSimple driverExecuteSingle (listTablesQuery flt) of
        Inl e \<Rightarrow> Inl e
      | Inr tables \<Rightarrow>
          Inr (map (\<lambda>row. \<lparr>tv_schema = getProp row ''OWNER'', tv_name = getProp row ''TABLE_NAME'',
                            entityType = ''table''\<rparr>) tables))"

definition listViewsQuery :: "FilterOptions option \<Rightarrow> KnexQuery" where
  "listViewsQuery flt =
     (let q = knex ''ALL_VIEWS'';
          q = (case flt of
                 None \<Rightarrow> q
               | Some f \<Rightarrow>
                   (case filter_schema f of
                      None \<Rightarrow> q
                    | Some s \<Rightarrow>
                        (if s \<noteq> [] then addWhere (Where ''OWNER'' (toUpperCase s)) q
                         else q)));
          q = (case flt of
                 None \<Rightarrow> q
               | Some f \<Rightarrow>
                   (case only f of
                      None \<Rightarrow> q
                    | Some names \<Rightarrow> addWhere (WhereIn ''VIEW_NAME'' names) q));
          q = (case flt of
                 None \<Rightarrow> q
               | Some f \<Rightarrow>
                   (case ignore f of
                      None \<Rightarrow> q
                    | Some names \<Rightarrow> addWhere (WhereIn ''VIEW_NAME'' names) q))
      in q)"

definition listViews ::
  "(KnexQuery \<Rightarrow> js_error + string DriverResult) \<Rightarrow> FilterOptions option \<Rightarrow>
   js_error + TableOrView list" where
  "listViews driverExecuteSingle flt =
     (case driverExecuteSimple driverExecuteSingle (listViewsQuery flt) of
        Inl e \<Rightarrow> Inl e
      | Inr views \<Rightarrow>
          Inr (map (\<lambda>row. \<lparr>tv_schema = getProp row ''OWNER'', tv_name = getProp row ''VIEW_NAME'',
                            entityType = ''view''\<rparr>) views))"

text \<open>
  The engine's answer to a query of the builder: the rows of the catalog view that
  satisfy every condition, under the names of the view's columns. A catalog maps the
  name of a view to its columns and rows.
\<close>

record Relation =
  columns :: "string list"
  tuples :: "string list list"

definition cell :: "string list \<Rightarrow> string list \<Rightarrow> string \<Rightarrow> string option" where
  "cell cols t col = map_of (zip cols t) col"

fun holds :: "string list \<Rightarrow> string list \<Rightarrow> Clause \<Rightarrow> bool" where
  "holds cols t (Where col v) = (cell cols t col = Some v)"
| "holds cols t (WhereIn col vs) =
     (case cell cols t col of None \<Rightarrow> False | Some x \<Rightarrow> x \<in> set vs)"
| "holds cols t (WhereNotIn col vs) =
     (case cell cols t col of None \<Rightarrow> False | Some x \<Rightarrow> x \<notin> set vs)"

definition runKnex :: "(string \<Rightarrow> Relation) \<Rightarrow> KnexQuery \<Rightarrow> js_error + string DriverResult" where
  "runKnex catalog q =
     (let rel = catalog (from_view q)
      in Inr \<lparr>result =
                \<lparr>metaData = Some (map (\<lambda>c. \<lparr>name = c, dbTypeName = ''VARCHAR2''\<rparr>) (columns rel)),
                 rows = Some (filter (\<lambda>t. list_all (holds (columns rel) t) (wheres q)) (tuples rel)),
                 rowsAffected = None\<rparr>,
              info = \<lparr>stmt_text = from_view q, executionType = LISTING\<rparr>\<rparr>)"

definition exampleCatalog :: "string \<Rightarrow> Relation" where
  "exampleCatalog view =
     (if view = ''ALL_TABLES''
      then \<lparr>columns = [''OWNER'', ''TABLE_NAME''],
            tuples = [[''HR'', ''A''], [''HR'', ''B''], [''HR'', ''C'']]\<rparr>
      else if view = ''ALL_VIEWS''
      then \<lparr>columns = [''OWNER'', ''VIEW_NAME''],
            tuples = [[''HR'', ''A''], [''HR'', ''B''], [''HR'', ''C'']]\<rparr>
      else \<lparr>columns = [], tuples = []\<rparr>)"

subsection \<open>Primary keys\<close>

text \<open>
  \<^verbatim>\<open>getPrimaryKeys\<close> sends one SELECT over the catalog views \<^verbatim>\<open>all_constraints\<close> and
  \<^verbatim>\<open>all_cons_columns\<close> and maps every row of the answer to a column name and a position.
  The answer of \<^verbatim>\<open>driverExecuteSimple\<close> to the statement generated for a table and a
  schema is a parameter: rows with the five selected columns, or an exception.
\<close>

record PrimaryKeyRow =
  TABLE_NAME :: string
  COLUMN_NAME :: string
  POSITION :: int
  STATUS :: string
  OWNER :: string

record PrimaryKeyColumn =
  columnName :: string
  position :: int

definition getPrimaryKeys ::
  "(string \<Rightarrow> string option \<Rightarrow> js_error + PrimaryKeyRow list) \<Rightarrow> string \<Rightarrow> string option \<Rightarrow>
   js_error + PrimaryKeyColumn list" where
  "getPrimaryKeys runSelect table schema =
     (case runSelect table schema of
        Inl e \<Rightarrow> Inl e
      | Inr response \<Rightarrow>
          Inr (map (\<lambda>row. \<lparr>columnName = COLUMN_NAME row, position = POSITION row\<rparr>) response))"

definition getPrimaryKey ::
  "(string \<Rightarrow> string option \<Rightarrow> js_error + PrimaryKeyRow list) \<Rightarrow> string \<Rightarrow> string option \<Rightarrow>
   js_error + string option" where
  "getPrimaryKey runSelect table schema =
     (case getPrimaryKeys runSelect table schema of
        Inl e \<Rightarrow> Inl e
      | Inr all \<Rightarrow> Inr (if length all = 1 then Some (columnName (all ! 0)) else None))"

text \<open>
  What the statement of \<^verbatim>\<open>getPrimaryKeys\<close> selects, read off its text: the pairs of a
  constraint and a constraint column with the given table name (and, when a schema is
  given and not empty, the upper-cased schema as owner) where the constraint is of type
  \<^verbatim>\<open>P\<close> and both agree on constraint name and owner, ordered by table name and then
  position. Where the order leaves a choice the rows keep the order of the join.
\<close>

record ConstraintRow =
  cons_owner :: string
  cons_constraint_name :: string
  cons_constraint_type :: string
  cons_status :: string

record ConsColumnRow =
  cols_owner :: string
  cols_constraint_name :: string
  cols_table_name :: string
  cols_column_name :: string
  cols_position :: int

record Catalog =
  all_constraints :: "ConstraintRow list"
  all_cons_columns :: "ConsColumnRow list"

definition primaryKeysSelect :: "Catalog \<Rightarrow> string \<Rightarrow> string option \<Rightarrow> PrimaryKeyRow list" where
  "primaryKeysSelect cat table schema =
     sort_key (\<lambda>row. (TABLE_NAME row, POSITION row))
       [\<lparr>TABLE_NAME = cols_table_name cols, COLUMN_NAME = cols_column_name cols,
         POSITION = cols_position cols, STATUS = cons_status cons, OWNER = cons_owner cons\<rparr>.
        cons \<leftarrow> all_constraints cat, cols \<leftarrow> all_cons_columns cat,
        cols_table_name cols = table \<and>
        (case schema of
           None \<Rightarrow> True
         | Some s \<Rightarrow> if s \<noteq> [] then cols_owner cols = toUpperCase s else True) \<and>
        cons_constraint_type cons = ''P'' \<and>
        cons_constraint_name cons = cols_constraint_name cols \<and>
        cons_owner cons = cols_owner cols]"

definition oracleSelect :: "Catalog \<Rightarrow> string \<Rightarrow> string option \<Rightarrow> js_error + PrimaryKeyRow list" where
  "oracleSelect cat table schema = Inr (primaryKeysSelect cat table schema)"

definition exampleKeys :: Catalog where
  "exampleKeys =
     \<lparr>all_constraints =
        [\<lparr>cons_owner = ''HR'', cons_constraint_name = ''PK_ITEMS'', cons_constraint_type = ''P'',
          cons_status = ''ENABLED''\<rparr>,
         \<lparr>cons_owner = ''HR'', cons_constraint_name = ''PK_ORDERS'', cons_constraint_type = ''P'',
          cons_status = ''ENABLED''\<rparr>,
         \<lparr>cons_owner = ''HR'', cons_constraint_name = ''FK_ITEMS'', cons_constraint_type = ''R'',
          cons_status = ''ENABLED''\<rparr>],
      all_cons_columns =
        [\<lparr>cols_owner = ''HR'', cols_constraint_name = ''PK_ITEMS'', cols_table_name = ''ITEMS'',
          cols_column_name = ''LINE_NO'', cols_position = 2\<rparr>,
         \<lparr>cols_owner = ''HR'', cols_constraint_name = ''PK_ITEMS'', cols_table_name = ''ITEMS'',
          cols_column_name = ''ORDER_ID'', cols_position = 1\<rparr>,
         \<lparr>cols_owner = ''HR'', cols_constraint_name = ''FK_ITEMS'', cols_table_name = ''ITEMS'',
          cols_column_name = ''ORDER_ID'', cols_position = 1\<rparr>,
         \<lparr>cols_owner = ''HR'', cols_constraint_name = ''PK_ORDERS'', cols_table_name = ''ORDERS'',
          cols_column_name = ''ID'', cols_position = 1\<rparr>]\<rparr>"

section \<open>Properties\<close>

subsection \<open>The trailing separator\<close>






subsection \<open>Pagination of the generated SELECT\<close>

lemma offsetString_omitted:
  "offset = None \<or> limit = None \<Longrightarrow> offsetString offset limit = []"
  by (auto simp: offsetString_def split: option.splits)

lemma offsetString_iff:
  "offsetString offset limit \<noteq> [] \<longleftrightarrow> offset \<noteq> None \<and> limit \<noteq> None"
  by (auto simp: offsetString_def split: option.splits)

lemma genSelect_omitted:
  assumes "offset = None \<or> limit = None"
  shows "genSelect D t offset limit ob f s c sel = genSelect D t None None ob f s c sel"
proof -
  have h: "offsetString offset limit = offsetString None None"
    using assms by (simp add: offsetString_omitted)
  show ?thesis by (simp only: genSelect_def h)
qed

lemma genSelect_both:
  assumes "genSelect D t None None ob f s c sel = Inr q0"
  shows "\<exists>h. q0 = h @ nl 4 \<and>
     genSelect D t (Some off) (Some lim) ob f s c sel =
       Inr (h @ ''OFFSET '' @ showInt off @ '' ROWS FETCH NEXT '' @ showInt lim @
            '' ROWS ONLY'' @ nl 4)"
proof (cases "case f of RawFilter s \<Rightarrow> Inr (''WHERE '' @ wrapLiteral D s)
            | NoFilters \<Rightarrow> genFilters D None
            | FilterList fs \<Rightarrow> genFilters D (Some fs)")
  case (Inl e)
  with assms show ?thesis by (simp add: genSelect_def)
next
  case (Inr filterString)
  have n: "offsetString None None = []"
    and b: "offsetString (Some off) (Some lim) =
      ''OFFSET '' @ showInt off @ '' ROWS FETCH NEXT '' @ showInt lim @ '' ROWS ONLY''"
    by (simp_all add: offsetString_def)
  show ?thesis
    using assms unfolding genSelect_def Inr n b
    by (simp add: Let_def)
qed

lemma genSelect_error:
  "genSelect D t None None ob f s c sel = Inl e \<Longrightarrow>
   genSelect D t offset limit ob f s c sel = Inl e"
  by (auto simp: genSelect_def split: sum.splits)

text \<open>
  C4. The clause \<^verbatim>\<open>OFFSET .. ROWS FETCH NEXT .. ROWS ONLY\<close> is generated exactly when
  offset and limit are both numbers. With one of them omitted the query is the query
  generated with both omitted; with both given the query is that query with the clause
  on its last line. An exception of the filter generation does not depend on either.
\<close>

theorem genSelect_pagination:
  "(offset = None \<or> limit = None \<longrightarrow>
      genSelect D t offset limit ob f s c sel = genSelect D t None None ob f s c sel) \<and>
   (\<forall>q0. genSelect D t None None ob f s c sel = Inr q0 \<longrightarrow>
      (\<exists>h. q0 = h @ nl 4 \<and>
         genSelect D t (Some off) (Some lim) ob f s c sel =
           Inr (h @ ''OFFSET '' @ showInt off @ '' ROWS FETCH NEXT '' @ showInt lim @
                '' ROWS ONLY'' @ nl 4))) \<and>
   (\<forall>e. genSelect D t None None ob f s c sel = Inl e \<longrightarrow>
      genSelect D t offset limit ob f s c sel = Inl e) \<and>
   (offsetString offset limit \<noteq> [] \<longleftrightarrow> offset \<noteq> None \<and> limit \<noteq> None)"
  using genSelect_omitted [of offset limit D t ob f s c sel]
    genSelect_both [of D t ob f s c sel _ off lim]
    genSelect_error [of D t ob f s c sel _ offset limit]
    offsetString_iff [of offset limit]
  by blast

lemma showInt_20: "showInt 20 = ''20''"
  by (simp add: showInt_def showNat.simps digit_def)

lemma showInt_10: "showInt 10 = ''10''"
  by (simp add: showInt_def showNat.simps digit_def)

theorem genSelect_pagination_witness:
  "genSelect exampleDialect ''T'' (Some 20) None None NoFilters None False None =
     genSelect exampleDialect ''T'' None None None NoFilters None False None \<and>
   genSelect exampleDialect ''T'' None (Some 10) None NoFilters None False None =
     genSelect exampleDialect ''T'' None None None NoFilters None False None \<and>
   (\<exists>h. genSelect exampleDialect ''T'' None None None NoFilters None False None =
          Inr (h @ nl 4) \<and>
        genSelect exampleDialect ''T'' (Some 20) (Some 10) None NoFilters None False None =
          Inr (h @ ''OFFSET 20 ROWS FETCH NEXT 10 ROWS ONLY'' @ nl 4)) \<and>
   offsetString (Some 20) None = [] \<and> offsetString None (Some 10) = [] \<and>
   offsetString (Some 20) (Some 10) \<noteq> []"
proof -
  obtain q0 where q0: "genSelect exampleDialect ''T'' None None None NoFilters None False None = Inr q0"
    by (simp add: genSelect_def genFilters_def)
  note a = genSelect_pagination
    [of "Some 20" None exampleDialect "''T''" None NoFilters None False None 20 10]
  note b = genSelect_pagination
    [of None "Some 10" exampleDialect "''T''" None NoFilters None False None 20 10]
  note c = genSelect_pagination
    [of "Some 20" "Some 10" exampleDialect "''T''" None NoFilters None False None 20 10]
  from a have 1: "genSelect exampleDialect ''T'' (Some 20) None None NoFilters None False None =
     genSelect exampleDialect ''T'' None None None NoFilters None False None"
    and 4: "offsetString (Some 20) None = []" by simp_all
  from b have 2: "genSelect exampleDialect ''T'' None (Some 10) None NoFilters None False None =
     genSelect exampleDialect ''T'' None None None NoFilters None False None"
    and 5: "offsetString None (Some 10) = []" by simp_all
  from c q0 have 3: "\<exists>h. genSelect exampleDialect ''T'' None None None NoFilters None False None =
          Inr (h @ nl 4) \<and>
        genSelect exampleDialect ''T'' (Some 20) (Some 10) None NoFilters None False None =
          Inr (h @ ''OFFSET 20 ROWS FETCH NEXT 10 ROWS ONLY'' @ nl 4)"
    by (simp add: showInt_20 showInt_10)
  from c have 6: "offsetString (Some 20) (Some 10) \<noteq> []" by simp
  from 1 2 3 4 5 6 show ?thesis by blast
qed

subsection \<open>Fragments of the WHERE clause\<close>

lemma mapThrow_nth:
  "mapThrow f xs = Inr ys \<Longrightarrow>
   length ys = length xs \<and> (\<forall>i < length xs. f (xs ! i) = Inr (ys ! i))"
proof (induction xs arbitrary: ys)
  case Nil
  then show ?case by simp
next
  case (Cons x xs)
  then obtain y ys' where y: "f x = Inr y" and ys': "mapThrow f xs = Inr ys'" and eq: "ys = y # ys'"
    by (auto split: sum.splits)
  from Cons.IH [OF ys']
  have "length ys' = length xs" and "\<forall>i < length xs. f (xs ! i) = Inr (ys' ! i)"
    by simp_all
  with y eq show ?case by (auto simp: nth_Cons split: nat.splits)
qed

lemma toUpperCase_is: "toUpperCase ''is'' = ''IS''"
  by (simp add: toUpperCase_def toUpperChar_def)

lemma toUpperCase_is_not: "toUpperCase ''is not'' = ''IS NOT''"
  by (simp add: toUpperCase_def toUpperChar_def)

lemma genFilter_is:
  "filter_type item = ''is'' \<Longrightarrow>
   genFilter D item = Inr (wrapIdentifier D (field item) @ '' IS NULL'')"
  by (simp add: genFilter_def toUpperCase_is)

lemma genFilter_is_not:
  "filter_type item = ''is not'' \<Longrightarrow>
   genFilter D item = Inr (wrapIdentifier D (field item) @ '' IS NOT NULL'')"
  by (simp add: genFilter_def toUpperCase_is_not)

lemma genFilter_in:
  "filter_type item = ''in'' \<Longrightarrow> filter_value item = Multiple vs \<Longrightarrow>
   genFilter D item =
     Inr (wrapIdentifier D (field item) @ '' IN ('' @
          join '','' (map (\<lambda>v. escapeString D (Single v) True) vs) @ '')'')"
  by (simp add: genFilter_def)

text \<open>
  C5. Let \<^verbatim>\<open>frags\<close> be the fragments that \<^verbatim>\<open>genFilters\<close> computes for a filter list
  and hands to \<^verbatim>\<open>joinFilters\<close>. The fragment of an entry of type \<^verbatim>\<open>is\<close> is the
  wrapped field followed by \<^verbatim>\<open>IS NULL\<close>, that of an entry of type \<^verbatim>\<open>is not\<close> the
  wrapped field followed by \<^verbatim>\<open>IS NOT NULL\<close>, whatever value the entry carries; the
  fragment of an entry of type \<^verbatim>\<open>in\<close> is the wrapped field and the list of its values,
  each escaped on its own, joined by commas.
\<close>

theorem genFilters_is_in:
  assumes "mapThrow (genFilter D) fs = Inr frags" and "i < length fs"
  shows "length frags = length fs \<and>
    genFilters D (Some fs) = Inr (''WHERE '' @ joinFilters D frags fs) \<and>
    (filter_type (fs ! i) = ''is'' \<longrightarrow>
       frags ! i = wrapIdentifier D (field (fs ! i)) @ '' IS NULL'') \<and>
    (filter_type (fs ! i) = ''is not'' \<longrightarrow>
       frags ! i = wrapIdentifier D (field (fs ! i)) @ '' IS NOT NULL'') \<and>
    (filter_type (fs ! i) = ''in'' \<longrightarrow>
       (\<exists>vs. filter_value (fs ! i) = Multiple vs \<and>
          frags ! i = wrapIdentifier D (field (fs ! i)) @ '' IN ('' @
             join '','' (map (\<lambda>v. escapeString D (Single v) True) vs) @ '')''))"
proof -
  from mapThrow_nth [OF assms(1)] assms(2)
  have len: "length frags = length fs" and fi: "genFilter D (fs ! i) = Inr (frags ! i)"
    by simp_all
  from assms have w: "genFilters D (Some fs) = Inr (''WHERE '' @ joinFilters D frags fs)"
    by (auto simp: genFilters_def)
  have a: "filter_type (fs ! i) = ''is'' \<longrightarrow>
      frags ! i = wrapIdentifier D (field (fs ! i)) @ '' IS NULL''"
    using fi genFilter_is [of "fs ! i" D] by auto
  have b: "filter_type (fs ! i) = ''is not'' \<longrightarrow>
      frags ! i = wrapIdentifier D (field (fs ! i)) @ '' IS NOT NULL''"
    using fi genFilter_is_not [of "fs ! i" D] by auto
  have c: "filter_type (fs ! i) = ''in'' \<longrightarrow>
       (\<exists>vs. filter_value (fs ! i) = Multiple vs \<and>
          frags ! i = wrapIdentifier D (field (fs ! i)) @ '' IN ('' @
             join '','' (map (\<lambda>v. escapeString D (Single v) True) vs) @ '')'')"
  proof
    assume t: "filter_type (fs ! i) = ''in''"
    show "\<exists>vs. filter_value (fs ! i) = Multiple vs \<and>
          frags ! i = wrapIdentifier D (field (fs ! i)) @ '' IN ('' @
             join '','' (map (\<lambda>v. escapeString D (Single v) True) vs) @ '')''"
    proof (cases "filter_value (fs ! i)")
      case (Single v)
      with t fi show ?thesis by (simp add: genFilter_def)
    next
      case (Multiple vs)
      with t fi genFilter_in [of "fs ! i" vs D] show ?thesis by simp
    qed
  qed
  from len w a b c show ?thesis by blast
qed

theorem genFilters_is_in_witness:
  "mapThrow (genFilter exampleDialect)
     [\<lparr>field = ''a'', filter_type = ''is'', filter_value = Single ''x''\<rparr>,
      \<lparr>field = ''b'', filter_type = ''is not'', filter_value = Single ''y''\<rparr>,
      \<lparr>field = ''c'', filter_type = ''in'', filter_value = Multiple [''1'', ''2'']\<rparr>]
   = Inr [wrapIdentifier exampleDialect ''a'' @ '' IS NULL'',
          wrapIdentifier exampleDialect ''b'' @ '' IS NOT NULL'',
          wrapIdentifier exampleDialect ''c'' @ '' IN ('' @
            escapeString exampleDialect (Single ''1'') True @ '','' @
            escapeString exampleDialect (Single ''2'') True @ '')''] \<and>
   genFilters exampleDialect (Some
     [\<lparr>field = ''a'', filter_type = ''is'', filter_value = Single ''x''\<rparr>,
      \<lparr>field = ''b'', filter_type = ''is not'', filter_value = Single ''y''\<rparr>,
      \<lparr>field = ''c'', filter_type = ''in'', filter_value = Multiple [''1'', ''2'']\<rparr>])
   = Inr (''WHERE '' @ join '' AND ''
         [wrapIdentifier exampleDialect ''a'' @ '' IS NULL'',
          wrapIdentifier exampleDialect ''b'' @ '' IS NOT NULL'',
          wrapIdentifier exampleDialect ''c'' @ '' IN ('' @
            escapeString exampleDialect (Single ''1'') True @ '','' @
            escapeString exampleDialect (Single ''2'') True @ '')''])"
proof -
  let ?fs = "[\<lparr>field = ''a'', filter_type = ''is'', filter_value = Single ''x''\<rparr>,
      \<lparr>field = ''b'', filter_type = ''is not'', filter_value = Single ''y''\<rparr>,
      \<lparr>field = ''c'', filter_type = ''in'', filter_value = Multiple [''1'', ''2'']\<rparr>]"
  let ?frags = "[wrapIdentifier exampleDialect ''a'' @ '' IS NULL'',
          wrapIdentifier exampleDialect ''b'' @ '' IS NOT NULL'',
          wrapIdentifier exampleDialect ''c'' @ '' IN ('' @
            escapeString exampleDialect (Single ''1'') True @ '','' @
            escapeString exampleDialect (Single ''2'') True @ '')'']"
  have m: "mapThrow (genFilter exampleDialect) ?fs = Inr ?frags"
    by (simp add: genFilter_def toUpperCase_is toUpperCase_is_not)
  have j: "joinFilters exampleDialect ?frags ?fs = join '' AND '' ?frags"
    by (simp add: exampleDialect_def)
  have "genFilters exampleDialect (Some ?fs) = Inr (''WHERE '' @ joinFilters exampleDialect ?frags ?fs)"
    using genFilters_is_in [OF m, of 2] by simp
  with m j show ?thesis by simp
qed

subsection \<open>Synthetic field ids and row objects\<close>

lemma digit_inj: "a < 10 \<Longrightarrow> b < 10 \<Longrightarrow> digit a = digit b \<Longrightarrow> a = b"
proof -
  assume a: "a < 10" and b: "b < 10" and e: "digit a = digit b"
  have d: "distinct ''0123456789''" by simp
  from a b have "a < length ''0123456789''" "b < length ''0123456789''" by simp_all
  with d e show "a = b" unfolding digit_def by (simp only: nth_eq_iff_index_eq)
qed

lemma showNat_nonempty: "showNat n \<noteq> []"
  by (subst showNat.simps) simp

lemma showNat_small: "n < 10 \<Longrightarrow> showNat n = [digit n]"
  by (subst showNat.simps) simp

lemma showNat_big: "\<not> n < 10 \<Longrightarrow> showNat n = showNat (n div 10) @ [digit (n mod 10)]"
  by (subst showNat.simps) simp

lemma showNat_inj: "showNat m = showNat n \<Longrightarrow> m = n"
proof (induction m arbitrary: n rule: showNat.induct)
  case (1 m)
  show ?case
  proof (cases "m < 10")
    case True
    note m = this
    show ?thesis
    proof (cases "n < 10")
      case True
      with m "1.prems" show ?thesis by (simp add: showNat_small digit_inj)
    next
      case False
      with m "1.prems" showNat_nonempty [of "n div 10"] show ?thesis
        by (simp add: showNat_small showNat_big)
    qed
  next
    case False
    note m = this
    show ?thesis
    proof (cases "n < 10")
      case True
      with m "1.prems" showNat_nonempty [of "m div 10"] show ?thesis
        by (simp add: showNat_small showNat_big)
    next
      case False
      with m "1.prems" have e: "showNat (m div 10) = showNat (n div 10)"
        and d: "digit (m mod 10) = digit (n mod 10)"
        by (simp_all add: showNat_big)
      from "1.IH" [OF m e] have q: "m div 10 = n div 10" .
      from d have r: "m mod 10 = n mod 10" by (simp add: digit_inj)
      from q r show ?thesis by (metis div_mult_mod_eq)
    qed
  qed
qed

lemma map_enumerate_fst: "map (\<lambda>(i, x). f i) (enumerate n xs) = map f [n ..< n + length xs]"
proof -
  have "map (\<lambda>(i, x). f i) (enumerate n xs) = map f (map fst (enumerate n xs))"
    by (simp only: map_map comp_def case_prod_unfold)
  then show ?thesis by simp
qed

lemma map_enumerate_snd: "map (\<lambda>(i, x). g x) (enumerate n xs) = map g xs"
proof -
  have "map (\<lambda>(i, x). g x) (enumerate n xs) = map g (map snd (enumerate n xs))"
    by (simp only: map_map comp_def case_prod_unfold)
  then show ?thesis by simp
qed

lemma field_ids: "map field_id (metaToFields (Some ms)) = map (\<lambda>i. ''c'' @ showNat i) [0 ..< length ms]"
proof -
  have "map field_id (metaToFields (Some ms)) = map (\<lambda>(i, x). ''c'' @ showNat i) (enumerate 0 ms)"
    by (simp add: metaToFields_def case_prod_beta comp_def)
  then show ?thesis by (simp only: map_enumerate_fst) simp
qed

lemma field_ids_distinct: "distinct (map field_id (metaToFields md))"
proof (cases md)
  case None
  then show ?thesis by (simp add: metaToFields_def)
next
  case (Some ms)
  have "inj_on (\<lambda>i. ''c'' @ showNat i) (set [0 ..< length ms])"
    by (rule inj_onI) (simp add: showNat_inj)
  then have "distinct (map (\<lambda>i. ''c'' @ showNat i) [0 ..< length ms])"
    by (simp add: distinct_map)
  with Some show ?thesis by (simp only: field_ids)
qed

lemma assign_new: "k \<notin> fst ` set res \<Longrightarrow> assign res k v = res @ [(k, v)]"
  by (induction res) auto

lemma baseZipObject_keys:
  "distinct (map fst res @ ps) \<Longrightarrow> map fst (baseZipObject res ps vs) = map fst res @ ps"
proof (induction res ps vs rule: baseZipObject.induct)
  case (1 res vs)
  then show ?case by simp
next
  case (2 res p ps)
  then have "p \<notin> fst ` set res" by auto
  then have a: "assign res p None = res @ [(p, None)]" by (rule assign_new)
  from 2 show ?case by (simp add: a)
next
  case (3 res p ps v vs)
  then have "p \<notin> fst ` set res" by auto
  then have a: "assign res p (Some v) = res @ [(p, Some v)]" by (rule assign_new)
  from 3 show ?case by (simp add: a)
qed

lemma zipObject_keys: "distinct ps \<Longrightarrow> map fst (zipObject ps vs) = ps"
  using baseZipObject_keys [of "[]" ps vs] by (simp add: zipObject_def)

lemma c_not_index: "\<not> isArrayIndex (CHR ''c'' # s)"
  by (simp add: isArrayIndex_def isDigit_def)

lemma objectKeys_plain:
  "list_all (\<lambda>k. \<not> isArrayIndex k) (map fst obj) \<Longrightarrow> objectKeys obj = map fst obj"
proof -
  assume a: "list_all (\<lambda>k. \<not> isArrayIndex k) (map fst obj)"
  then have "filter isArrayIndex (map fst obj) = []"
    by (simp add: list_all_iff filter_empty_conv)
  moreover from a have "filter (\<lambda>k. \<not> isArrayIndex k) (map fst obj) = map fst obj"
    by (simp add: list_all_iff)
  ultimately show ?thesis by (simp add: objectKeys_def)
qed


text \<open>
  C8. The ids of the field descriptors are \<^verbatim>\<open>c0\<close>, \<^verbatim>\<open>c1\<close>, ... in the order of the
  metadata (whose names they keep), hence pairwise distinct whatever the column names
  are; and every row object of \<^verbatim>\<open>parseResult\<close> has exactly these ids as its keys, in the
  order of the fields.
\<close>

theorem synthetic_field_ids:
  "map field_id (metaToFields md) =
     map (\<lambda>i. ''c'' @ showNat i) [0 ..< length (metaToFields md)] \<and>
   (md = Some ms \<longrightarrow> map field_name (metaToFields md) = map name ms) \<and>
   distinct (map field_id (metaToFields md)) \<and>
   (\<forall>row \<in> set (ng_rows (parseResult r)).
      objectKeys row = map field_id (ng_fields (parseResult r)))"
proof (intro conjI impI ballI)
  show "map field_id (metaToFields md) =
     map (\<lambda>i. ''c'' @ showNat i) [0 ..< length (metaToFields md)]"
  proof (cases md)
    case None
    then show ?thesis by (simp add: metaToFields_def)
  next
    case (Some ms')
    have "length (metaToFields (Some ms')) = length ms'"
      by (simp add: metaToFields_def)
    with Some show ?thesis by (simp only: field_ids)
  qed
next
  assume "md = Some ms"
  then show "map field_name (metaToFields md) = map name ms"
    using map_enumerate_snd [of name 0 ms]
    by (simp add: metaToFields_def case_prod_unfold comp_def)
next
  show "distinct (map field_id (metaToFields md))"
    by (rule field_ids_distinct)
next
  fix row
  assume row: "row \<in> set (ng_rows (parseResult r))"
  let ?ids = "map field_id (metaToFields (metaData (result r)))"
  from row obtain cells where z: "row = zipObject ?ids cells"
    by (auto simp: parseResult_def Let_def split: option.splits)
  have d: "distinct ?ids" by (rule field_ids_distinct)
  then have k: "map fst row = ?ids" unfolding z by (rule zipObject_keys)
  have "list_all (\<lambda>k. \<not> isArrayIndex k) ?ids"
    by (cases "metaData (result r)")
      (simp_all add: metaToFields_def list_all_iff case_prod_unfold c_not_index)
  with k have "objectKeys row = ?ids" by (simp add: objectKeys_plain)
  then show "objectKeys row = map field_id (ng_fields (parseResult r))"
    by (simp add: parseResult_def Let_def)
qed

lemma showNat_0: "showNat 0 = ''0''"
  by (simp add: showNat.simps digit_def)

lemma showNat_1: "showNat (Suc 0) = ''1''"
  by (simp add: showNat.simps digit_def)

theorem synthetic_field_ids_witness:
  "map field_id (metaToFields (Some [\<lparr>name = ''ID'', dbTypeName = ''NUMBER''\<rparr>,
                                     \<lparr>name = ''ID'', dbTypeName = ''VARCHAR2''\<rparr>])) = [''c0'', ''c1''] \<and>
   map field_name (metaToFields (Some [\<lparr>name = ''ID'', dbTypeName = ''NUMBER''\<rparr>,
                                     \<lparr>name = ''ID'', dbTypeName = ''VARCHAR2''\<rparr>])) = [''ID'', ''ID''] \<and>
   ng_rows (parseResult
     \<lparr>result = \<lparr>metaData = Some [\<lparr>name = ''ID'', dbTypeName = ''NUMBER''\<rparr>,
                                   \<lparr>name = ''ID'', dbTypeName = ''VARCHAR2''\<rparr>],
                 rows = Some [[''7'', ''x'']], rowsAffected = None\<rparr>,
      info = \<lparr>stmt_text = ''SELECT 1'', executionType = LISTING\<rparr>\<rparr>)
     = [[(''c0'', Some ''7''), (''c1'', Some ''x'')]] \<and>
   objectKeys [(''c0'', Some ''7''), (''c1'', Some ''x'')] = [''c0'', ''c1'']"
proof -
  let ?ms = "[\<lparr>name = ''ID'', dbTypeName = ''NUMBER''\<rparr>, \<lparr>name = ''ID'', dbTypeName = ''VARCHAR2''\<rparr>]"
  let ?r = "\<lparr>result = \<lparr>metaData = Some ?ms, rows = Some [[''7'', ''x'']], rowsAffected = None\<rparr>,
      info = \<lparr>stmt_text = ''SELECT 1'', executionType = LISTING\<rparr>\<rparr>"
  note t = synthetic_field_ids [of "Some ?ms" ?ms ?r]
  have len: "length (metaToFields (Some ?ms)) = 2"
    by (simp add: metaToFields_def)
  have u: "[0 ..< 2] = [0, 1::nat]" by (simp add: upt_rec)
  from t have ids: "map field_id (metaToFields (Some ?ms)) = [''c0'', ''c1'']"
    by (simp only: len u) (simp add: showNat_0 showNat_1)
  from t have names: "map field_name (metaToFields (Some ?ms)) = [''ID'', ''ID'']"
    by simp
  have fs: "map field_id (ng_fields (parseResult ?r)) = [''c0'', ''c1'']"
    using ids by (simp add: parseResult_def Let_def)
  have rs: "ng_rows (parseResult ?r) = [[(''c0'', Some ''7''), (''c1'', Some ''x'')]]"
    using ids by (simp add: parseResult_def Let_def zipObject_def)
  from t have "\<forall>row \<in> set (ng_rows (parseResult ?r)).
      objectKeys row = map field_id (ng_fields (parseResult ?r))" by blast
  then have "objectKeys [(''c0'', Some ''7''), (''c1'', Some ''x'')] = [''c0'', ''c1'']"
    by (simp only: rs fs) simp
  with ids names rs show ?thesis by blast
qed

text \<open>
  C10. When the query that \<^verbatim>\<open>selectTop\<close> generates is executed and yields zero rows,
  \<^verbatim>\<open>selectTop\<close> returns normally, with no rows and no fields: the keys are read from
  the first row or, as there is none, from an empty object.
\<close>

theorem selectTop_empty:
  assumes "genSelect D table offset limit orderBy filters
             (Some (case schema of None \<Rightarrow> toUpperCase user | Some s \<Rightarrow> s)) False
             (Some (case selects of None \<Rightarrow> [''*''] | Some ss \<Rightarrow> ss)) = Inr q"
    and "driverExecuteSingle q = Inr dr"
    and "rows (result dr) = Some []"
  shows "selectTop D driverExecuteSingle user table offset limit orderBy filters schema selects =
           Inr \<lparr>tr_result = [], tr_fields = []\<rparr>"
  using assms by (simp add: selectTop_def driverExecuteSimple_def objectKeys_def)

theorem selectTop_empty_witness:
  "selectTop exampleDialect
     (\<lambda>q. Inr \<lparr>result = \<lparr>metaData = Some [\<lparr>name = ''ID'', dbTypeName = ''NUMBER''\<rparr>],
                           rows = Some ([] :: string list list), rowsAffected = None\<rparr>,
                info = \<lparr>stmt_text = q, executionType = LISTING\<rparr>\<rparr>)
     ''scott'' ''T'' (Some 0) (Some 10) None NoFilters None None =
   Inr \<lparr>tr_result = [], tr_fields = []\<rparr>"
proof -
  let ?drv = "\<lambda>q. Inr \<lparr>result = \<lparr>metaData = Some [\<lparr>name = ''ID'', dbTypeName = ''NUMBER''\<rparr>],
                           rows = Some ([] :: string list list), rowsAffected = None\<rparr>,
                info = \<lparr>stmt_text = q, executionType = LISTING\<rparr>\<rparr>"
  obtain q where q: "genSelect exampleDialect ''T'' (Some 0) (Some 10) None NoFilters
             (Some (case None of None \<Rightarrow> toUpperCase ''scott'' | Some s \<Rightarrow> s)) False
             (Some (case None of None \<Rightarrow> [''*''] | Some ss \<Rightarrow> ss)) = Inr q"
    by (simp add: genSelect_def genFilters_def)
  have d: "?drv q = Inr (\<lparr>result = \<lparr>metaData = Some [\<lparr>name = ''ID'', dbTypeName = ''NUMBER''\<rparr>],
                           rows = Some ([] :: string list list), rowsAffected = None\<rparr>,
                info = \<lparr>stmt_text = q, executionType = LISTING\<rparr>\<rparr>)" by simp
  show ?thesis
    by (rule selectTop_empty [where driverExecuteSingle = ?drv, OF q d]) simp
qed


subsection \<open>Errors of a cancelable query\<close>

text \<open>
  C9. When the query was not canceled, an exception of the execution is thrown again:
  with the text \<^verbatim>\<open> - have you tried "quoting" the table name?\<close> appended to its
  message, and nothing else changed, when the message contains
  \<^verbatim>\<open>table or view does not exist\<close>; as it is otherwise. An exception of obtaining the
  session is thrown as it is.
\<close>

theorem execute_error_translation:
  "(getConnection = Inl e \<longrightarrow> execute getConnection raced canceling = Inl e) \<and>
   (getConnection = Inr c \<and> raced = Inl err \<and> \<not> canceling \<longrightarrow>
      (\<forall>m. message err = Some m \<and> js_includes m ''table or view does not exist'' \<longrightarrow>
         execute getConnection raced canceling =
           Inl (err\<lparr>message := Some (m @ '' - have you tried '' @ [CHR 0x22] @ ''quoting'' @
                                        [CHR 0x22] @ '' the table name?'')\<rparr>)) \<and>
      ((\<forall>m. message err = Some m \<longrightarrow> \<not> js_includes m ''table or view does not exist'') \<longrightarrow>
         execute getConnection raced canceling = Inl err))"
  by (auto simp: execute_def translateError_def split: option.splits)

lemma includes_ora_00942:
  "js_includes ''ORA-00942: table or view does not exist'' ''table or view does not exist''"
  by simp

lemma not_includes_ora_00001:
  "\<not> js_includes ''ORA-00001: unique constraint violated'' ''table or view does not exist''"
  by simp

theorem execute_error_translation_witness:
  "execute (Inr ()) (Inl \<lparr>message = Some ''ORA-00942: table or view does not exist'',
                          props = [(''errorNum'', ''942'')]\<rparr>) False
     = (Inl \<lparr>message = Some (''ORA-00942: table or view does not exist - have you tried '' @
                               [CHR 0x22] @ ''quoting'' @ [CHR 0x22] @ '' the table name?''),
             props = [(''errorNum'', ''942'')]\<rparr>
        :: js_error + string NgQueryResult list option) \<and>
   execute (Inr ()) (Inl \<lparr>message = Some ''ORA-00001: unique constraint violated'',
                          props = [(''errorNum'', ''1'')]\<rparr>) False
     = (Inl \<lparr>message = Some ''ORA-00001: unique constraint violated'',
             props = [(''errorNum'', ''1'')]\<rparr>
        :: js_error + string NgQueryResult list option) \<and>
   execute (Inl \<lparr>message = Some ''NJS-040: connection request timeout'', props = []\<rparr>
            :: js_error + unit) (Inr None) False
     = (Inl \<lparr>message = Some ''NJS-040: connection request timeout'', props = []\<rparr>
        :: js_error + string NgQueryResult list option)"
proof -
  let ?e1 = "\<lparr>message = Some ''ORA-00942: table or view does not exist'',
              props = [(''errorNum'', ''942'')]\<rparr>"
  let ?e2 = "\<lparr>message = Some ''ORA-00001: unique constraint violated'',
              props = [(''errorNum'', ''1'')]\<rparr>"
  let ?e3 = "\<lparr>message = Some ''NJS-040: connection request timeout'', props = []\<rparr>"
  have 1: "execute (Inr ()) (Inl ?e1) False =
      (Inl (?e1\<lparr>message := Some (''ORA-00942: table or view does not exist'' @
                  '' - have you tried '' @ [CHR 0x22] @ ''quoting'' @ [CHR 0x22] @
                  '' the table name?'')\<rparr>)
        :: js_error + string NgQueryResult list option)"
    using execute_error_translation
      [where getConnection = "Inr ()" and c = "()" and raced = "Inl ?e1" and err = ?e1
         and canceling = False]
      includes_ora_00942
    by simp
  have 2: "execute (Inr ()) (Inl ?e2) False =
      (Inl ?e2 :: js_error + string NgQueryResult list option)"
    using execute_error_translation
      [where getConnection = "Inr ()" and c = "()" and raced = "Inl ?e2" and err = ?e2
         and canceling = False]
      not_includes_ora_00001
    by simp
  have 3: "execute (Inl ?e3 :: js_error + unit) (Inr None) False =
      (Inl ?e3 :: js_error + string NgQueryResult list option)"
    using execute_error_translation
      [where getConnection = "Inl ?e3 :: js_error + unit" and e = ?e3 and raced = "Inr None"
         and canceling = False]
    by simp
  from 1 2 3 show ?thesis by simp
qed

subsection \<open>Cancellation\<close>

text \<open>
  With the flag \<^verbatim>\<open>canceling\<close> set, the call resolves as canceled (to \<^verbatim>\<open>undefined\<close>)
  exactly when the awaited race ends in an exception; when it ends in data, the flag is
  not read and the call resolves as it does without the flag.
\<close>

lemma execute_canceling_iff:
  "(execute (Inr c) raced True = Inr None) = (\<exists>err. raced = Inl err)"
  by (auto simp: execute_def split: sum.splits option.splits)

lemma execute_data_ignores_canceling:
  "execute getConnection (Inr data) canceling = execute getConnection (Inr data) False"
  by (simp add: execute_def split: sum.splits)

text \<open>
  C3 fails on the code. \<^verbatim>\<open>cancel()\<close> is called while the statement runs, after the
  session of \<^verbatim>\<open>query\<close> was obtained: it sets \<^verbatim>\<open>canceling\<close> and breaks that session,
  on which nothing executes, and the awaited race ends with the data of the statement.
  The call then resolves to the rows of the query, not as canceled.
\<close>

theorem execute_canceling_delivers_rows:
  "execute (Inr ())
     (Inr (Some [\<lparr>result = \<lparr>metaData = Some [\<lparr>name = ''ID'', dbTypeName = ''NUMBER''\<rparr>],
                              rows = Some [[''7'']], rowsAffected = None\<rparr>,
                   info = \<lparr>stmt_text = ''SELECT ID FROM T'', executionType = LISTING\<rparr>\<rparr>]))
     True =
   Inr (Some [\<lparr>command = ''SELECT ID FROM T'', rowCount = 1, affectedRows = 0,
               ng_rows = [[(''c0'', Some ''7'')]],
               ng_fields = [\<lparr>field_name = ''ID'', field_id = ''c0'', dataType = ''NUMBER''\<rparr>]\<rparr>])"
  by (simp add: execute_def parseResults_def parseResult_def metaToFields_def zipObject_def
      showNat.simps digit_def)

subsection \<open>The results returned for a change set\<close>

lemma js_slice_tail:
  assumes "length us \<le> length results" and "us \<noteq> []"
  shows "js_slice results (int (length results) - int (length us)) (- 1) =
         butlast (drop (length results - length us) results)"
proof -
  from assms have r: "results \<noteq> []" by auto
  have k: "nat (int (length results) - int (length us)) = length results - length us"
    by simp
  from assms r show ?thesis
    by (simp add: js_slice_def Let_def k butlast_conv_take min_def max_def nat_diff_distrib'
         take_drop)
qed

text \<open>
  Whenever the batch of a change set with \<open>n > 0\<close> updates has at least \<open>n\<close> results,
  \<^verbatim>\<open>applyChanges\<close> returns the last \<open>n\<close> results without the very last one: \<open>n - 1\<close>
  results, not \<open>n\<close>.
\<close>

lemma applyChanges_length:
  assumes "applyChanges B driverExecuteMultiple changes = Inr out"
    and "updates changes = Some us" and "us \<noteq> []"
    and "\<And>sqlText results. driverExecuteMultiple sqlText = Inr results \<Longrightarrow> length us \<le> length results"
  shows "length out = length us - 1"
proof -
  from assms(1,2) obtain sqlText results where d: "driverExecuteMultiple sqlText = Inr results"
    and out: "out = js_slice results (int (length results) - int (length us)) (- 1)"
    by (auto simp: applyChanges_def split: sum.splits)
  from assms(4) [OF d] have le: "length us \<le> length results" .
  from out js_slice_tail [OF le assms(3)]
  have "out = butlast (drop (length results - length us) results)" by simp
  with le show ?thesis by simp
qed

lemma example_batch:
  "exampleExecuteMultiple ''UPDATE T SET X = 1 WHERE ID = 7;SELECT * FROM T WHERE ID = 7'' =
     Inr [\<lparr>result = \<lparr>metaData = Some [\<lparr>name = ''STATEMENT'', dbTypeName = ''VARCHAR2''\<rparr>],
                      rows = Some [[''UPDATE T SET X = 1 WHERE ID = 7'']],
                      rowsAffected = None\<rparr>,
           info = \<lparr>stmt_text = ''UPDATE T SET X = 1 WHERE ID = 7'',
                   executionType = MODIFICATION\<rparr>\<rparr>,
          \<lparr>result = \<lparr>metaData = Some [\<lparr>name = ''STATEMENT'', dbTypeName = ''VARCHAR2''\<rparr>],
                      rows = Some [[''SELECT * FROM T WHERE ID = 7'']],
                      rowsAffected = None\<rparr>,
           info = \<lparr>stmt_text = ''SELECT * FROM T WHERE ID = 7'',
                   executionType = LISTING\<rparr>\<rparr>]"
  by (simp add: exampleExecuteMultiple_def rawExecuteQuery_def exampleIdentify_def
      exampleSession_def maybeStripSemicolon_def endsWith_def trimEnd_def isWhiteSpace_def
      suffix_to_prefix Let_def)

text \<open>
  C1 fails on the code. For a change set with one update the batch has two results, the
  result of the UPDATE and the result of the reselect; \<^verbatim>\<open>applyChanges\<close> returns neither:
  the slice ends before the last result of the batch, which is the reselect.
\<close>

theorem applyChanges_one_update:
  "exampleExecuteMultiple
     (join '';'' [''UPDATE T SET X = 1 WHERE ID = 7'', ''SELECT * FROM T WHERE ID = 7'']) =
     Inr [\<lparr>result = \<lparr>metaData = Some [\<lparr>name = ''STATEMENT'', dbTypeName = ''VARCHAR2''\<rparr>],
                      rows = Some [[''UPDATE T SET X = 1 WHERE ID = 7'']],
                      rowsAffected = None\<rparr>,
           info = \<lparr>stmt_text = ''UPDATE T SET X = 1 WHERE ID = 7'',
                   executionType = MODIFICATION\<rparr>\<rparr>,
          \<lparr>result = \<lparr>metaData = Some [\<lparr>name = ''STATEMENT'', dbTypeName = ''VARCHAR2''\<rparr>],
                      rows = Some [[''SELECT * FROM T WHERE ID = 7'']],
                      rowsAffected = None\<rparr>,
           info = \<lparr>stmt_text = ''SELECT * FROM T WHERE ID = 7'',
                   executionType = LISTING\<rparr>\<rparr>] \<and>
   applyChanges exampleBuilders exampleExecuteMultiple
     \<lparr>inserts = Some [], updates = Some [''7''], deletes = Some []\<rparr> = Inr []"
proof -
  have j: "join '';'' [''UPDATE T SET X = 1 WHERE ID = 7'', ''SELECT * FROM T WHERE ID = 7''] =
      ''UPDATE T SET X = 1 WHERE ID = 7;SELECT * FROM T WHERE ID = 7''"
    by simp
  have "applyChanges exampleBuilders exampleExecuteMultiple
     \<lparr>inserts = Some [], updates = Some [''7''], deletes = Some []\<rparr> = Inr []"
    by (simp add: applyChanges_def exampleBuilders_def orEmpty_def example_batch js_slice_def)
  with j example_batch show ?thesis by simp
qed

subsection \<open>Allow-list and deny-list of the listings\<close>

lemma mapThrow_all:
  "(\<And>x. x \<in> set xs \<Longrightarrow> f x = Inr (g x)) \<Longrightarrow> mapThrow f xs = Inr (map g xs)"
  by (induction xs) simp_all

text \<open>
  \<^verbatim>\<open>listTables\<close> composes the two lists by conjunction: of the tables of the catalog
  it returns those named in the only-list and not named in the ignore-list.
\<close>

lemma listTables_only_ignore:
  assumes "catalog ''ALL_TABLES'' =
     \<lparr>columns = [''OWNER'', ''TABLE_NAME''], tuples = map (\<lambda>(ow, n). [ow, n]) tabs\<rparr>"
  shows "listTables (runKnex catalog)
           (Some \<lparr>filter_schema = None, only = Some os, ignore = Some ig\<rparr>) =
     Inr (map (\<lambda>(ow, n). \<lparr>tv_schema = Some ow, tv_name = Some n, entityType = ''table''\<rparr>)
            (filter (\<lambda>(ow, n). n \<in> set os \<and> n \<notin> set ig) tabs))"
proof -
  let ?q = "listTablesQuery (Some \<lparr>filter_schema = None, only = Some os, ignore = Some ig\<rparr>)"
  have q: "?q = \<lparr>from_view = ''ALL_TABLES'',
                 wheres = [WhereIn ''TABLE_NAME'' os, WhereNotIn ''TABLE_NAME'' ig]\<rparr>"
    by (simp add: listTablesQuery_def knex_def addWhere_def)
  let ?md = "Some [\<lparr>name = ''OWNER'', dbTypeName = ''VARCHAR2''\<rparr>,
                   \<lparr>name = ''TABLE_NAME'', dbTypeName = ''VARCHAR2''\<rparr>]"
  let ?sel = "filter (\<lambda>(ow, n). n \<in> set os \<and> n \<notin> set ig) tabs"
  have f: "filter (\<lambda>t. list_all (holds [''OWNER'', ''TABLE_NAME''] t) (wheres ?q))
             (map (\<lambda>(ow, n). [ow, n]) tabs)
      = map (\<lambda>(ow, n). [ow, n]) ?sel"
    unfolding q by (induction tabs) (auto simp: cell_def)
  have r: "runKnex catalog ?q =
      Inr \<lparr>result = \<lparr>metaData = ?md, rows = Some (map (\<lambda>(ow, n). [ow, n]) ?sel),
                      rowsAffected = None\<rparr>,
           info = \<lparr>stmt_text = ''ALL_TABLES'', executionType = LISTING\<rparr>\<rparr>"
    using f by (simp add: runKnex_def assms q)
  have m: "mapThrow (\<lambda>r. fillRow ?md 0 r []) (map (\<lambda>(ow, n). [ow, n]) ?sel) =
      Inr (map (\<lambda>r. [(''OWNER'', r ! 0), (''TABLE_NAME'', r ! 1)])
             (map (\<lambda>(ow, n). [ow, n]) ?sel))"
    by (rule mapThrow_all) auto
  have d: "driverExecuteSimple (runKnex catalog) ?q =
      Inr (map (\<lambda>(ow, n). [(''OWNER'', ow), (''TABLE_NAME'', n)]) ?sel)"
    using m by (simp add: driverExecuteSimple_def r comp_def case_prod_unfold)
  show ?thesis
    by (simp add: listTables_def d getProp_def comp_def case_prod_unfold)
qed

text \<open>
  C2 fails on the code for \<^verbatim>\<open>listViews\<close>, which passes the ignore-list to \<^verbatim>\<open>whereIn\<close>.
  Of the views A, B and C, with A and B allowed and B to be ignored, it returns B, the
  view to be ignored, and not A; \<^verbatim>\<open>listTables\<close> on like tables returns A.
\<close>

theorem listViews_returns_ignored:
  "listViews (runKnex exampleCatalog)
     (Some \<lparr>filter_schema = None, only = Some [''A'', ''B''], ignore = Some [''B'']\<rparr>) =
     Inr [\<lparr>tv_schema = Some ''HR'', tv_name = Some ''B'', entityType = ''view''\<rparr>] \<and>
   listTables (runKnex exampleCatalog)
     (Some \<lparr>filter_schema = None, only = Some [''A'', ''B''], ignore = Some [''B'']\<rparr>) =
     Inr [\<lparr>tv_schema = Some ''HR'', tv_name = Some ''A'', entityType = ''table''\<rparr>]"
proof -
  have v: "listViews (runKnex exampleCatalog)
     (Some \<lparr>filter_schema = None, only = Some [''A'', ''B''], ignore = Some [''B'']\<rparr>) =
     Inr [\<lparr>tv_schema = Some ''HR'', tv_name = Some ''B'', entityType = ''view''\<rparr>]"
    by (simp add: listViews_def listViewsQuery_def knex_def addWhere_def runKnex_def
        exampleCatalog_def driverExecuteSimple_def cell_def getProp_def)
  have c: "exampleCatalog ''ALL_TABLES'' =
     \<lparr>columns = [''OWNER'', ''TABLE_NAME''],
      tuples = map (\<lambda>(ow, n). [ow, n]) [(''HR'', ''A''), (''HR'', ''B''), (''HR'', ''C'')]\<rparr>"
    by (simp add: exampleCatalog_def)
  have t: "listTables (runKnex exampleCatalog)
     (Some \<lparr>filter_schema = None, only = Some [''A'', ''B''], ignore = Some [''B'']\<rparr>) =
     Inr [\<lparr>tv_schema = Some ''HR'', tv_name = Some ''A'', entityType = ''table''\<rparr>]"
    using listTables_only_ignore
      [where catalog = exampleCatalog and tabs = "[(''HR'', ''A''), (''HR'', ''B''), (''HR'', ''C'')]"
         and os = "[''A'', ''B'']" and ig = "[''B'']", OF c]
    by simp
  from v t show ?thesis by simp
qed

subsection \<open>The single primary key\<close>

lemma primaryKeysSelect_table:
  "row \<in> set (primaryKeysSelect cat table schema) \<Longrightarrow> TABLE_NAME row = table"
  by (auto simp: primaryKeysSelect_def)

lemma sorted_positions:
  assumes "sorted (map (\<lambda>row. (TABLE_NAME row, POSITION row)) rs)"
    and "\<And>row. row \<in> set rs \<Longrightarrow> TABLE_NAME row = t"
  shows "sorted (map POSITION rs)"
  using assms
  by (induction rs) (auto simp: less_eq_prod_def)

lemma primaryKeysSelect_sorted: "sorted (map POSITION (primaryKeysSelect cat table schema))"
proof (rule sorted_positions)
  show "sorted (map (\<lambda>row. (TABLE_NAME row, POSITION row)) (primaryKeysSelect cat table schema))"
    unfolding primaryKeysSelect_def by (rule sorted_sort_key)
next
  fix row assume "row \<in> set (primaryKeysSelect cat table schema)"
  then show "TABLE_NAME row = table" by (rule primaryKeysSelect_table)
qed

text \<open>
  C6. \<^verbatim>\<open>getPrimaryKey\<close> returns the column name of the only entry when
  \<^verbatim>\<open>getPrimaryKeys\<close> returns exactly one entry, and only then; when \<^verbatim>\<open>getPrimaryKeys\<close>
  returns no entry or several it returns \<^verbatim>\<open>null\<close> and throws nothing; it throws what
  \<^verbatim>\<open>getPrimaryKeys\<close> throws. On the rows that its statement selects,
  \<^verbatim>\<open>getPrimaryKeys\<close> returns, and its entries are in the order of their positions.
\<close>

theorem primaryKey_spec:
  "(\<forall>ks. getPrimaryKeys runSelect table schema = Inr ks \<longrightarrow>
      (length ks = 1 \<longrightarrow> getPrimaryKey runSelect table schema = Inr (Some (columnName (hd ks)))) \<and>
      (length ks \<noteq> 1 \<longrightarrow> getPrimaryKey runSelect table schema = Inr None)) \<and>
   (\<forall>c. getPrimaryKey runSelect table schema = Inr (Some c) \<longrightarrow>
      (\<exists>k. getPrimaryKeys runSelect table schema = Inr [k] \<and> columnName k = c)) \<and>
   (\<forall>e. getPrimaryKeys runSelect table schema = Inl e \<longrightarrow>
      getPrimaryKey runSelect table schema = Inl e) \<and>
   (\<exists>ks. getPrimaryKeys (oracleSelect cat) table schema = Inr ks \<and> sorted (map position ks))"
proof (intro conjI allI impI)
  fix ks
  assume "getPrimaryKeys runSelect table schema = Inr ks" and "length ks = 1"
  then show "getPrimaryKey runSelect table schema = Inr (Some (columnName (hd ks)))"
    by (cases ks) (simp_all add: getPrimaryKey_def)
next
  fix ks
  assume "getPrimaryKeys runSelect table schema = Inr ks" and "length ks \<noteq> 1"
  then show "getPrimaryKey runSelect table schema = Inr None"
    by (simp add: getPrimaryKey_def)
next
  fix c
  assume a: "getPrimaryKey runSelect table schema = Inr (Some c)"
  then obtain ks where ks: "getPrimaryKeys runSelect table schema = Inr ks"
    and l: "length ks = 1" and c: "columnName (ks ! 0) = c"
    by (auto simp: getPrimaryKey_def split: sum.splits if_splits)
  from l obtain k where "ks = [k]" by (cases ks) auto
  with ks c show "\<exists>k. getPrimaryKeys runSelect table schema = Inr [k] \<and> columnName k = c"
    by simp
next
  fix e
  assume "getPrimaryKeys runSelect table schema = Inl e"
  then show "getPrimaryKey runSelect table schema = Inl e"
    by (simp add: getPrimaryKey_def)
next
  have "map position (map (\<lambda>row. \<lparr>columnName = COLUMN_NAME row, position = POSITION row\<rparr>)
          (primaryKeysSelect cat table schema)) = map POSITION (primaryKeysSelect cat table schema)"
    by simp
  then show "\<exists>ks. getPrimaryKeys (oracleSelect cat) table schema = Inr ks \<and> sorted (map position ks)"
    using primaryKeysSelect_sorted [of cat table schema]
    by (simp add: getPrimaryKeys_def oracleSelect_def comp_def)
qed


lemma exampleKeys_items: "primaryKeysSelect exampleKeys ''ITEMS'' (Some ''hr'') =
   [\<lparr>TABLE_NAME = ''ITEMS'', COLUMN_NAME = ''ORDER_ID'', POSITION = 1, STATUS = ''ENABLED'', OWNER = ''HR''\<rparr>,
    \<lparr>TABLE_NAME = ''ITEMS'', COLUMN_NAME = ''LINE_NO'', POSITION = 2, STATUS = ''ENABLED'', OWNER = ''HR''\<rparr>]"
  by (simp add: primaryKeysSelect_def exampleKeys_def toUpperCase_def toUpperChar_def less_eq_prod_def)

lemma exampleKeys_orders: "primaryKeysSelect exampleKeys ''ORDERS'' None =
   [\<lparr>TABLE_NAME = ''ORDERS'', COLUMN_NAME = ''ID'', POSITION = 1, STATUS = ''ENABLED'', OWNER = ''HR''\<rparr>]"
  by (simp add: primaryKeysSelect_def exampleKeys_def)

lemma exampleKeys_customers: "primaryKeysSelect exampleKeys ''CUSTOMERS'' None = []"
  by (simp add: primaryKeysSelect_def exampleKeys_def)

theorem primaryKey_spec_witness:
  "getPrimaryKeys (oracleSelect exampleKeys) ''ITEMS'' (Some ''hr'') =
     Inr [\<lparr>columnName = ''ORDER_ID'', position = 1\<rparr>, \<lparr>columnName = ''LINE_NO'', position = 2\<rparr>] \<and>
   getPrimaryKey (oracleSelect exampleKeys) ''ITEMS'' (Some ''hr'') = Inr None \<and>
   getPrimaryKey (oracleSelect exampleKeys) ''ORDERS'' None = Inr (Some ''ID'') \<and>
   getPrimaryKey (oracleSelect exampleKeys) ''CUSTOMERS'' None = Inr None \<and>
   sorted (map position
     [\<lparr>columnName = ''ORDER_ID'', position = 1\<rparr>, \<lparr>columnName = ''LINE_NO'', position = 2\<rparr>])"
proof -
  have i: "getPrimaryKeys (oracleSelect exampleKeys) ''ITEMS'' (Some ''hr'') =
     Inr [\<lparr>columnName = ''ORDER_ID'', position = 1\<rparr>, \<lparr>columnName = ''LINE_NO'', position = 2\<rparr>]"
    by (simp add: getPrimaryKeys_def oracleSelect_def exampleKeys_items)
  have o: "getPrimaryKeys (oracleSelect exampleKeys) ''ORDERS'' None =
     Inr [\<lparr>columnName = ''ID'', position = 1\<rparr>]"
    by (simp add: getPrimaryKeys_def oracleSelect_def exampleKeys_orders)
  have c: "getPrimaryKeys (oracleSelect exampleKeys) ''CUSTOMERS'' None = Inr []"
    by (simp add: getPrimaryKeys_def oracleSelect_def exampleKeys_customers)
  note ti = primaryKey_spec [of "oracleSelect exampleKeys" "''ITEMS''" "Some ''hr''" exampleKeys]
  note to = primaryKey_spec [of "oracleSelect exampleKeys" "''ORDERS''" None exampleKeys]
  note tc = primaryKey_spec [of "oracleSelect exampleKeys" "''CUSTOMERS''" None exampleKeys]
  from ti [THEN conjunct1, rule_format, OF i]
  have 1: "getPrimaryKey (oracleSelect exampleKeys) ''ITEMS'' (Some ''hr'') = Inr None"
    by simp
  from ti [THEN conjunct2, THEN conjunct2, THEN conjunct2]
  obtain ks where "getPrimaryKeys (oracleSelect exampleKeys) ''ITEMS'' (Some ''hr'') = Inr ks"
    and "sorted (map position ks)" by blast
  with i have 4: "sorted (map position
     [\<lparr>columnName = ''ORDER_ID'', position = 1\<rparr>, \<lparr>columnName = ''LINE_NO'', position = 2\<rparr>])"
    by simp
  from to [THEN conjunct1, rule_format, OF o]
  have 2: "getPrimaryKey (oracleSelect exampleKeys) ''ORDERS'' None = Inr (Some ''ID'')"
    by simp
  from tc [THEN conjunct1, rule_format, OF c]
  have 3: "getPrimaryKey (oracleSelect exampleKeys) ''CUSTOMERS'' None = Inr None"
    by simp
  from i 1 2 3 4 show ?thesis by (simp only: simp_thms)
qed

end
